theory Spec2Isabelle
  imports Complex_Main "HOL-Library.AList"
begin

text \<open>
  The prop converter of react-flip-move, \<open>src/prop-converter.js\<close>: the method
  \<open>convertProps\<close> of the component \<open>FlipMovePropConverter\<close>, which turns the props a
  caller wrote into the props the composed component is rendered with, and what it
  writes to the console on the way.
\<close>

section \<open>JavaScript values\<close>

text \<open>
  A JavaScript number is \<open>NaN\<close>, one of the two infinities, or a finite double, which is
  represented by the rational it denotes (\<open>-0\<close> is identified with \<open>0\<close>). A value is a
  primitive, a function, an array or a plain object. An object is its list of own
  enumerable properties in insertion order; a React element is such an object (with its
  \<open>type\<close>, \<open>key\<close> and \<open>props\<close> fields, the key being null when none was written). \<open>Function f\<close> is a function the caller or another
  module supplied, known only by its name; \<open>Thunk v\<close> is the closure \<open>() => v\<close>.
  Values are compared structurally: object identity is outside this model. So are
  symbols and big integers, inherited properties, and the rule that puts integer-like
  keys first in the order of an object's keys.
\<close>

datatype jsnum = NaN | PosInfinity | NegInfinity | Finite rat

datatype jsval =
    Undefined
  | Null
  | Bool bool
  | Num jsnum
  | Str string
  | Function string
  | Thunk jsval
  | Arr "jsval list"
  | Obj "(string \<times> jsval) list"

type_synonym props = "(string \<times> jsval) list"

datatype exn = TypeError

fun typeof :: "jsval \<Rightarrow> string" where
  "typeof Undefined = ''undefined''"
| "typeof Null = ''object''"
| "typeof (Bool b) = ''boolean''"
| "typeof (Num n) = ''number''"
| "typeof (Str s) = ''string''"
| "typeof (Function f) = ''function''"
| "typeof (Thunk v) = ''function''"
| "typeof (Arr xs) = ''object''"
| "typeof (Obj kvs) = ''object''"

text \<open>Calling a value with arguments: only the body of \<open>() => v\<close> is known here.\<close>

fun call :: "jsval \<Rightarrow> jsval list \<Rightarrow> jsval option" where
  "call (Thunk v) args = Some v"
| "call f args = None"

text \<open>\<open>ToBoolean\<close>: the falsy values are undefined, null, false, 0, NaN and the empty string.\<close>

fun truthy :: "jsval \<Rightarrow> bool" where
  "truthy Undefined = False"
| "truthy Null = False"
| "truthy (Bool b) = b"
| "truthy (Num n) = (n \<noteq> NaN \<and> n \<noteq> Finite 0)"
| "truthy (Str s) = (s \<noteq> [])"
| "truthy v = True"

subsection \<open>Objects\<close>

text \<open>\<open>o[k]\<close>: reading a property that is not there gives undefined.\<close>

definition get :: "props \<Rightarrow> string \<Rightarrow> jsval" where
  "get obj k = (case map_of obj k of Some v \<Rightarrow> v | None \<Rightarrow> Undefined)"

text \<open>\<open>o[k] = v\<close>: an existing property keeps its place, a new one goes last.\<close>

definition put :: "props \<Rightarrow> string \<Rightarrow> jsval \<Rightarrow> props" where
  "put obj k v = AList.update k v obj"

definition Object_keys :: "props \<Rightarrow> string list" where
  "Object_keys obj = map fst obj"

text \<open>
  \<open>v.k\<close> on any value: a property read on undefined or null throws; primitives,
  functions and arrays have no property of the names read here (\<open>key\<close>).
\<close>

fun member :: "jsval \<Rightarrow> string \<Rightarrow> exn + jsval" where
  "member Undefined k = Inl TypeError"
| "member Null k = Inl TypeError"
| "member (Obj kvs) k = Inr (get kvs k)"
| "member v k = Inr Undefined"

text \<open>Decimal digits of an array index, as a property name.\<close>

fun index_key :: "nat \<Rightarrow> string" where
  "index_key n =
     (if n < 10 then [''0123456789'' ! n]
      else index_key (n div 10) @ [''0123456789'' ! (n mod 10)])"

declare index_key.simps [simp del]

text \<open>
  The own enumerable properties an object spread \<open>{...v}\<close> copies: those of an object,
  the indexed elements of an array, the indexed characters of a string, none of any
  other value.
\<close>

fun own_entries :: "jsval \<Rightarrow> props" where
  "own_entries (Obj kvs) = kvs"
| "own_entries (Arr xs) = zip (map index_key [0..<length xs]) xs"
| "own_entries (Str s) = zip (map index_key [0..<length s]) (map (\<lambda>c. Str [c]) s)"
| "own_entries v = []"

text \<open>
  \<open>{...target, ...source}\<close>: for each own key of the source in order, its value is
  written to the target.
\<close>

definition spread :: "props \<Rightarrow> jsval \<Rightarrow> props" where
  "spread target source =
     fold (\<lambda>k t. put t k (get (own_entries source) k)) (Object_keys (own_entries source)) target"

text \<open>
  Modelled from the spec: \<open>omit\<close> of \<open>./helpers\<close>, which is not among the sources. The spec
  gives its contract as \<open>omit(object, keysToRemove) -> newObjectWithoutThoseKeys\<close>: the
  properties of the object whose key is not listed, in their order.
\<close>

definition omit :: "props \<Rightarrow> string list \<Rightarrow> props" where
  "omit obj attrs = filter (\<lambda>kv. fst kv \<notin> set attrs) obj"

subsection \<open>Numbers: \<open>parseInt\<close> and \<open>isNaN\<close>\<close>

fun bit_length :: "nat \<Rightarrow> nat" where
  "bit_length n = (if n = 0 then 0 else Suc (bit_length (n div 2)))"

declare bit_length.simps [simp del]

text \<open>
  The double nearest to an integer: exact below \<open>2^53\<close>, otherwise rounded to 53
  significant bits, ties to even, and infinite from \<open>2^1024\<close> on.
\<close>

definition double_of_int :: "int \<Rightarrow> jsnum" where
  "double_of_int n =
     (let a = nat \<bar>n\<bar> in
      if a < 2 ^ 53 then Finite (of_int n)
      else
        let e = bit_length a - 53;
            q = a div 2 ^ e;
            r = a mod 2 ^ e;
            half = 2 ^ (e - 1);
            q' = (if half < r \<or> (r = half \<and> odd q) then q + 1 else q);
            m = q' * 2 ^ e
        in if 2 ^ 1024 \<le> m then (if n < 0 then NegInfinity else PosInfinity)
           else Finite (of_int (if n < 0 then - int m else int m)))"

definition isWhiteSpace :: "char \<Rightarrow> bool" where
  "isWhiteSpace c = (c \<in> set [CHR 0x09, CHR 0x0A, CHR 0x0B, CHR 0x0C, CHR 0x0D, CHR 0x20])"

definition isDigit :: "char \<Rightarrow> bool" where
  "isDigit c = (c \<in> set ''0123456789'')"

definition digitValue :: "char \<Rightarrow> int" where
  "digitValue c = int (of_char c) - 48"

text \<open>
  \<open>parseInt(string, 10)\<close> of ECMAScript, the radix being 10 at its only call: leading
  white space is dropped, one sign is read, then the longest run of decimal digits; no
  digit gives \<open>NaN\<close>. Strings are byte strings here, so the white space is the ASCII one.
\<close>

definition parseInt :: "string \<Rightarrow> jsnum" where
  "parseInt string =
     (let S = dropWhile isWhiteSpace string;
          sign = (if S \<noteq> [] \<and> hd S = CHR ''-'' then - 1 else 1);
          S = (if S \<noteq> [] \<and> (hd S = CHR ''+'' \<or> hd S = CHR ''-'') then tl S else S);
          Z = takeWhile isDigit S
      in if Z = [] then NaN
         else double_of_int (sign * foldl (\<lambda>acc c. 10 * acc + digitValue c) 0 Z))"

section \<open>The collaborators of the converter\<close>

text \<open>
  What the module imports and the sources do not hold is a parameter of the model:
  \<open>isElementAnSFC\<close> of \<open>./helpers\<close>, \<open>defaultPreset\<close> of \<open>./enter-leave-presets\<close>, and the
  number a string, function, array or object converts to (\<open>ToNumber\<close> of the language,
  which runs \<open>valueOf\<close> and \<open>toString\<close>).
\<close>

record host =
  isElementAnSFC :: "jsval \<Rightarrow> bool"
  defaultPreset :: jsval
  ToNumber_other :: "jsval \<Rightarrow> jsnum"

fun ToNumber :: "host \<Rightarrow> jsval \<Rightarrow> jsnum" where
  "ToNumber h Undefined = NaN"
| "ToNumber h Null = Finite 0"
| "ToNumber h (Bool b) = Finite (if b then 1 else 0)"
| "ToNumber h (Num n) = n"
| "ToNumber h v = ToNumber_other h v"

definition isNaN :: "host \<Rightarrow> jsval \<Rightarrow> bool" where
  "isNaN h v = (ToNumber h v = NaN)"

text \<open>
  The messages of \<open>./error-messages\<close> are kept as the call that builds them, and the
  console as the list of what was written to it, oldest first.
\<close>

datatype message =
    statelessFunctionalComponentSupplied
  | invalidTypeForTimingProp string jsval jsval
  | deprecatedDisableAnimations

datatype console = console_warn message | console_error message

text \<open>
  Modelled from the spec: \<open>React.Children.toArray\<close> of the host framework, which is not
  among the sources. The spec gives its result as a flat ordered sequence of the
  children, in declared order, nested arrays flattened and the entries the framework
  renders as nothing (null, undefined, booleans) dropped; it always succeeds.
\<close>

fun toArray :: "jsval \<Rightarrow> jsval list" where
  "toArray (Arr xs) = concat (map toArray xs)"
| "toArray Undefined = []"
| "toArray Null = []"
| "toArray (Bool b) = []"
| "toArray v = [v]"

section \<open>The converter\<close>

datatype proptype =
    PT_node | PT_string | PT_number | PT_func | PT_bool
  | PT_shape "(string \<times> proptype) list"
  | PT_oneOfType "proptype list"
  | PT_isRequired proptype

definition propTypes :: "(string \<times> proptype) list" where
  "propTypes =
    [(''children'', PT_node),
     (''easing'', PT_string),
     (''duration'', PT_oneOfType [PT_string, PT_number]),
     (''delay'', PT_oneOfType [PT_string, PT_number]),
     (''staggerDurationBy'', PT_oneOfType [PT_string, PT_number]),
     (''staggerDelayBy'', PT_oneOfType [PT_string, PT_number]),
     (''onStart'', PT_func),
     (''onFinish'', PT_func),
     (''onStartAll'', PT_func),
     (''onFinishAll'', PT_func),
     (''typeName'', PT_string),
     (''enterClassName'',
        PT_oneOfType [PT_shape [(''from'', PT_string), (''to'', PT_string)], PT_func]),
     (''leaveClassName'',
        PT_oneOfType [PT_shape [(''from'', PT_string), (''to'', PT_string)], PT_func]),
     (''disableAllAnimations'', PT_bool),
     (''getPosition'', PT_func),
     (''maintainContainerHeight'', PT_isRequired PT_bool)]"

definition defaultProps :: "host \<Rightarrow> props" where
  "defaultProps h =
    [(''easing'', Str ''ease-in-out''),
     (''duration'', Num (Finite 350)),
     (''delay'', Num (Finite 0)),
     (''staggerDurationBy'', Num (Finite 0)),
     (''staggerDelayBy'', Num (Finite 0)),
     (''typeName'', Str ''div''),
     (''enterClassName'', defaultPreset h),
     (''leaveClassName'', defaultPreset h),
     (''disableAllAnimations'', Bool False),
     (''getPosition'', Function ''node => node.getBoundingClientRect()''),
     (''maintainContainerHeight'', Bool False)]"

definition primaryPropKeys :: "string list" where
  "primaryPropKeys = map fst propTypes"

definition timingPropNames :: "string list" where
  "timingPropNames = [''duration'', ''delay'', ''staggerDurationBy'', ''staggerDelayBy'']"

definition convertAnimationProp :: "jsval \<Rightarrow> jsval" where
  "convertAnimationProp animation =
     (if typeof animation = ''function'' then animation else Thunk animation)"

text \<open>The callback of \<open>children.every\<close>; the key is read only of a stateless child.\<close>

definition childAllowed :: "host \<Rightarrow> jsval \<Rightarrow> exn + bool" where
  "childAllowed h child =
     (if isElementAnSFC h child
      then (case member child ''key'' of
              Inl e \<Rightarrow> Inl e
            | Inr k \<Rightarrow> Inr (typeof k = ''undefined''))
      else Inr True)"

fun every :: "('a \<Rightarrow> exn + bool) \<Rightarrow> 'a list \<Rightarrow> exn + bool" where
  "every f [] = Inr True"
| "every f (x # xs) =
     (case f x of
        Inl e \<Rightarrow> Inl e
      | Inr b \<Rightarrow> if b then every f xs else Inr False)"

text \<open>The timing coercion: the value a raw value stands for, before the \<open>isNaN\<close> test.\<close>

fun timingValue :: "jsval \<Rightarrow> jsval" where
  "timingValue (Str s) = Num (parseInt s)"
| "timingValue rawValue = rawValue"

text \<open>One round of \<open>timingPropNames.forEach\<close>, on the working copy and the console.\<close>

fun convertTimingProp :: "host \<Rightarrow> string \<Rightarrow> props \<times> console list \<Rightarrow> props \<times> console list" where
  "convertTimingProp h prop (workingProps, out) =
     (let rawValue = get workingProps prop;
          value = timingValue rawValue
      in if isNaN h value
         then (let defaultValue = get (defaultProps h) prop;
                   errorMessage = invalidTypeForTimingProp prop value defaultValue
               in (put workingProps prop defaultValue, out @ [console_error errorMessage]))
         else (put workingProps prop value, out))"

definition convertAnimationProps :: "props \<Rightarrow> props" where
  "convertAnimationProps workingProps =
     (let workingProps = put workingProps ''enterClassName''
            (convertAnimationProp (get workingProps ''enterClassName''))
      in put workingProps ''leaveClassName''
            (convertAnimationProp (get workingProps ''leaveClassName'')))"

text \<open>The deprecated \<open>disableAnimations\<close>, read from the props the method was given.\<close>

fun acceptDisableAnimations :: "props \<Rightarrow> props \<times> console list \<Rightarrow> props \<times> console list" where
  "acceptDisableAnimations props (workingProps, out) =
     (if typeof (get props ''disableAnimations'') \<noteq> ''undefined''
      then (put (put workingProps ''disableAnimations'' Undefined)
                ''disableAllAnimations'' (get props ''disableAnimations''),
            out @ [console_warn deprecatedDisableAnimations])
      else (workingProps, out))"

text \<open>The delegated props, gathered from \<open>this.props\<close>.\<close>

definition delegatedProps :: "props \<Rightarrow> props" where
  "delegatedProps this_props =
     (let delegatedProps = omit this_props primaryPropKeys
      in put delegatedProps ''style''
           (Obj (spread [(''position'', Str ''relative'')] (get delegatedProps ''style''))))"

definition delegate :: "props \<Rightarrow> props \<Rightarrow> props" where
  "delegate this_props workingProps =
     (let workingProps = omit workingProps (Object_keys (delegatedProps this_props))
      in put workingProps ''delegated'' (Obj (delegatedProps this_props)))"

text \<open>
  \<open>convertProps(props)\<close> of a component whose \<open>this.props\<close> is \<open>this_props\<close>: the
  canonical props and what was written to the console, or the exception thrown.
\<close>

definition convertProps :: "host \<Rightarrow> props \<Rightarrow> props \<Rightarrow> exn + props \<times> console list" where
  "convertProps h this_props props =
     (let children = toArray (get props ''children'');
          workingProps = put props ''children'' (Arr children)
      in case every (childAllowed h) children of
           Inl e \<Rightarrow> Inl e
         | Inr noStateless \<Rightarrow>
             (let out = (if \<not> noStateless
                         then [console_warn statelessFunctionalComponentSupplied] else []);
                  (workingProps, out) = fold (convertTimingProp h) timingPropNames (workingProps, out);
                  workingProps = convertAnimationProps workingProps;
                  (workingProps, out) = acceptDisableAnimations props (workingProps, out)
              in Inr (delegate this_props workingProps, out)))"

text \<open>\<open>render()\<close> converts the component's own props.\<close>

definition render :: "host \<Rightarrow> props \<Rightarrow> exn + props \<times> console list" where
  "render h this_props = convertProps h this_props this_props"

text \<open>
  The props React hands to the component: each default of \<open>defaultProps\<close> fills the
  property that is undefined in what the caller wrote.
\<close>

definition resolveDefaultProps :: "host \<Rightarrow> props \<Rightarrow> props" where
  "resolveDefaultProps h raw =
     fold (\<lambda>kd p. if get p (fst kd) = Undefined then put p (fst kd) (snd kd) else p)
       (defaultProps h) raw"

definition normalize :: "host \<Rightarrow> props \<Rightarrow> exn + props \<times> console list" where
  "normalize h raw = render h (resolveDefaultProps h raw)"

section \<open>Observations on the result\<close>

text \<open>The errors on the console that name a timing prop.\<close>

fun namesTimingProp :: "string \<Rightarrow> console \<Rightarrow> bool" where
  "namesTimingProp prop (console_error (invalidTypeForTimingProp p v d)) = (p = prop)"
| "namesTimingProp prop c = False"

definition timingErrorsFor :: "string \<Rightarrow> console list \<Rightarrow> console list" where
  "timingErrorsFor prop out = filter (namesTimingProp prop) out"

text \<open>
  A child carries a key, for the check of the children, when \<open>typeof child.key\<close> is not
  \<open>'undefined'\<close>; the key null of an element written without one counts.
\<close>

definition hasKey :: "jsval \<Rightarrow> bool" where
  "hasKey child = (case member child ''key'' of Inl e \<Rightarrow> False | Inr k \<Rightarrow> typeof k \<noteq> ''undefined'')"

text \<open>\<open>Number.isInteger\<close>, and the two infinities.\<close>

fun isInteger :: "jsval \<Rightarrow> bool" where
  "isInteger (Num (Finite q)) = (frac q = 0)"
| "isInteger v = False"

fun isInfinity :: "jsval \<Rightarrow> bool" where
  "isInfinity (Num PosInfinity) = True"
| "isInfinity (Num NegInfinity) = True"
| "isInfinity v = False"

text \<open>
  A host for the concrete checks: a child is stateless when its \<open>type\<close> is a function,
  the default preset is a preset name, and the strings, functions and objects converted
  to a number there give \<open>NaN\<close>.
\<close>

definition example_host :: host where
  "example_host =
     \<lparr>isElementAnSFC = (\<lambda>child. typeof (get (own_entries child) ''type'') = ''function''),
      defaultPreset = Str ''elevator'',
      ToNumber_other = (\<lambda>v. NaN)\<rparr>"

text \<open>
  What the converter computes, part by part: the value a timing prop ends with, the
  errors one timing prop writes, the two warnings, and the working copy as it stands
  when the delegated props are taken out of it.
\<close>

definition timingResult :: "host \<Rightarrow> string \<Rightarrow> jsval \<Rightarrow> jsval" where
  "timingResult h prop rawValue =
     (if isNaN h (timingValue rawValue) then get (defaultProps h) prop else timingValue rawValue)"

definition timingErrors :: "host \<Rightarrow> props \<Rightarrow> string \<Rightarrow> console list" where
  "timingErrors h props prop =
     (if isNaN h (timingValue (get props prop))
      then [console_error (invalidTypeForTimingProp prop (timingValue (get props prop))
              (get (defaultProps h) prop))]
      else [])"

definition statelessWarning :: "host \<Rightarrow> props \<Rightarrow> console list" where
  "statelessWarning h props =
     (if list_ex (\<lambda>c. isElementAnSFC h c \<and> hasKey c) (toArray (get props ''children''))
      then [console_warn statelessFunctionalComponentSupplied] else [])"

definition deprecationWarning :: "props \<Rightarrow> console list" where
  "deprecationWarning props =
     (if get props ''disableAnimations'' = Undefined then []
      else [console_warn deprecatedDisableAnimations])"

definition convertedProps :: "host \<Rightarrow> props \<Rightarrow> props" where
  "convertedProps h props =
     fst (acceptDisableAnimations props
       (convertAnimationProps
          (fst (fold (convertTimingProp h) timingPropNames
             (put props ''children'' (Arr (toArray (get props ''children''))), []))), []))"

text \<open>The top level of what \<open>render\<close> hands on, without \<open>delegated\<close>.\<close>

definition recognised :: "host \<Rightarrow> props \<Rightarrow> props" where
  "recognised h props = omit (convertedProps h props) (Object_keys (delegatedProps props))"

section \<open>Objects as association lists\<close>

lemma get_Nil: "get [] k = Undefined"
  by (simp add: get_def)

lemma get_Cons: "get ((k, v) # obj) k' = (if k' = k then v else get obj k')"
  by (simp add: get_def)

lemma get_put: "get (put obj k v) k' = (if k' = k then v else get obj k')"
  by (simp add: get_def put_def update_conv')

lemma keys_put: "set (Object_keys (put obj k v)) = insert k (set (Object_keys obj))"
  using dom_update [of k v obj] by (simp add: Object_keys_def put_def)

lemma get_absent: "k \<notin> set (Object_keys obj) \<Longrightarrow> get obj k = Undefined"
  by (simp add: get_def Object_keys_def map_of_eq_None_iff [THEN iffD2])

lemma get_omit: "get (omit obj ks) k = (if k \<in> set ks then Undefined else get obj k)"
  by (induction obj) (auto simp: get_def omit_def)

lemma keys_omit: "set (Object_keys (omit obj ks)) = set (Object_keys obj) - set ks"
  by (auto simp: Object_keys_def omit_def)

lemma omit_absent: "set (Object_keys obj) \<inter> set ks = {} \<Longrightarrow> omit obj ks = obj"
  by (induction obj) (auto simp: Object_keys_def omit_def)

lemma omit_all: "set (Object_keys obj) \<subseteq> set ks \<Longrightarrow> omit obj ks = []"
  by (induction obj) (auto simp: Object_keys_def omit_def)

lemma put_same:
  assumes "k \<in> set (Object_keys obj)" and "get obj k = v"
  shows "put obj k v = obj"
proof -
  from assms(1) obtain w where w: "map_of obj k = Some w"
    by (metis Object_keys_def domD dom_map_of_conv_image_fst list.set_map)
  with assms(2) have "w = v" by (simp add: get_def)
  with w show ?thesis by (simp add: put_def update_triv)
qed

lemma get_fold_put:
  "get (fold (\<lambda>k t. put t k (f k)) ks t) k' = (if k' \<in> set ks then f k' else get t k')"
  by (induction ks arbitrary: t) (auto simp: get_put)

lemma keys_fold_put:
  "set (Object_keys (fold (\<lambda>k t. put t k (f k)) ks t)) = set (Object_keys t) \<union> set ks"
  by (induction ks arbitrary: t) (auto simp: keys_put)

lemma get_spread:
  "get (spread t s) k =
     (if k \<in> set (Object_keys (own_entries s)) then get (own_entries s) k else get t k)"
  by (simp add: spread_def get_fold_put)

lemma keys_spread:
  "set (Object_keys (spread t s)) = set (Object_keys t) \<union> set (Object_keys (own_entries s))"
  by (simp add: spread_def keys_fold_put)

lemma typeof_undefined: "(typeof v = ''undefined'') = (v = Undefined)"
  by (cases v) simp_all

lemma typeof_string: "(typeof v = ''string'') = (\<exists>s. v = Str s)"
  by (cases v) simp_all

section \<open>The recognised keys\<close>

lemma style_not_primary: "''style'' \<notin> set primaryPropKeys"
  by (simp add: primaryPropKeys_def propTypes_def)

lemma delegated_not_primary: "''delegated'' \<notin> set primaryPropKeys"
  by (simp add: primaryPropKeys_def propTypes_def)

lemma disableAnimations_not_primary: "''disableAnimations'' \<notin> set primaryPropKeys"
  by (simp add: primaryPropKeys_def propTypes_def)

lemma timing_names:
  "k \<in> set timingPropNames \<longleftrightarrow>
     k = ''duration'' \<or> k = ''delay'' \<or> k = ''staggerDurationBy'' \<or> k = ''staggerDelayBy''"
  by (auto simp: timingPropNames_def)

lemma distinct_timing: "distinct timingPropNames"
  by (simp add: timingPropNames_def)

lemma timing_primary: "k \<in> set timingPropNames \<Longrightarrow> k \<in> set primaryPropKeys"
  by (auto simp: timing_names primaryPropKeys_def propTypes_def)

lemma primary_members:
  "''children'' \<in> set primaryPropKeys" "''enterClassName'' \<in> set primaryPropKeys"
  "''leaveClassName'' \<in> set primaryPropKeys" "''disableAllAnimations'' \<in> set primaryPropKeys"
  by (simp_all add: primaryPropKeys_def propTypes_def)

lemma primary_plain: "k \<in> set primaryPropKeys \<Longrightarrow> k \<noteq> ''style'' \<and> k \<noteq> ''delegated'' \<and> k \<noteq> ''disableAnimations''"
  using style_not_primary delegated_not_primary disableAnimations_not_primary by auto

section \<open>Delegation\<close>

lemma keys_delegatedProps:
  "set (Object_keys (delegatedProps tp)) =
     insert ''style'' (set (Object_keys tp) - set primaryPropKeys)"
  by (simp add: delegatedProps_def Let_def keys_put keys_omit)

lemma get_delegatedProps:
  "get (delegatedProps tp) k =
     (if k = ''style'' then Obj (spread [(''position'', Str ''relative'')] (get tp ''style''))
      else if k \<in> set primaryPropKeys then Undefined else get tp k)"
  using style_not_primary
  by (simp add: delegatedProps_def Let_def get_put get_omit)

lemma get_delegate:
  "get (delegate tp w) k =
     (if k = ''delegated'' then Obj (delegatedProps tp)
      else if k = ''style'' \<or> (k \<in> set (Object_keys tp) \<and> k \<notin> set primaryPropKeys) then Undefined
      else get w k)"
  by (auto simp: delegate_def Let_def get_put get_omit keys_delegatedProps)

lemma keys_delegate:
  "set (Object_keys (delegate tp w)) =
     insert ''delegated''
       (set (Object_keys w) - insert ''style'' (set (Object_keys tp) - set primaryPropKeys))"
  by (simp add: delegate_def Let_def keys_put keys_omit keys_delegatedProps)

lemma get_delegate_primary: "k \<in> set primaryPropKeys \<Longrightarrow> get (delegate tp w) k = get w k"
  using primary_plain [of k] by (simp add: get_delegate)

section \<open>Children\<close>

lemma toArray_leaf: "c \<in> set (toArray v) \<Longrightarrow> toArray c = [c]"
  by (induction v rule: toArray.induct) auto

lemma toArray_defined: "c \<in> set (toArray v) \<Longrightarrow> c \<noteq> Undefined \<and> c \<noteq> Null"
  using toArray_leaf [of c v] by auto

lemma toArray_flat: "c \<in> set (toArray v) \<Longrightarrow> c \<noteq> Arr xs"
  by (induction v rule: toArray.induct) auto

lemma toArray_no_bool: "c \<in> set (toArray v) \<Longrightarrow> c \<noteq> Bool b"
  by (induction v rule: toArray.induct) auto

lemma concat_leaves: "\<forall>c \<in> set cs. toArray c = [c] \<Longrightarrow> concat (map toArray cs) = cs"
  by (induction cs) auto

lemma toArray_idem: "toArray (Arr (toArray v)) = toArray v"
  by (simp add: concat_leaves toArray_leaf)

lemma childAllowed_defined:
  "c \<noteq> Undefined \<Longrightarrow> c \<noteq> Null \<Longrightarrow>
     childAllowed h c = Inr (\<not> (isElementAnSFC h c \<and> hasKey c))"
  by (cases c) (auto simp: childAllowed_def hasKey_def)

lemma every_childAllowed:
  "\<forall>c \<in> set cs. c \<noteq> Undefined \<and> c \<noteq> Null \<Longrightarrow>
     every (childAllowed h) cs = Inr (\<not> list_ex (\<lambda>c. isElementAnSFC h c \<and> hasKey c) cs)"
  by (induction cs) (auto simp: childAllowed_defined)

lemma every_children:
  "every (childAllowed h) (toArray v) =
     Inr (\<not> list_ex (\<lambda>c. isElementAnSFC h c \<and> hasKey c) (toArray v))"
  by (rule every_childAllowed) (simp add: toArray_defined)

section \<open>Timing\<close>

lemma convertTimingProp_eq:
  "convertTimingProp h prop (w, out) =
     (put w prop (timingResult h prop (get w prop)), out @ timingErrors h w prop)"
  by (simp add: timingResult_def timingErrors_def Let_def)

declare convertTimingProp.simps [simp del]

lemma fold_timing_get:
  "distinct ps \<Longrightarrow>
   get (fst (fold (convertTimingProp h) ps (w, out))) k =
     (if k \<in> set ps then timingResult h k (get w k) else get w k)"
proof (induction ps arbitrary: w out)
  case Nil
  then show ?case by simp
next
  case (Cons p ps)
  then show ?case by (auto simp: convertTimingProp_eq get_put)
qed

lemma fold_timing_keys:
  "set (Object_keys (fst (fold (convertTimingProp h) ps (w, out)))) = set (Object_keys w) \<union> set ps"
  by (induction ps arbitrary: w out) (auto simp: convertTimingProp_eq keys_put)

lemma fold_timing_fst:
  "fst (fold (convertTimingProp h) ps (w, out)) = fst (fold (convertTimingProp h) ps (w, []))"
proof (induction ps arbitrary: w out)
  case Nil
  then show ?case by simp
next
  case (Cons p ps)
  show ?case
    using Cons.IH [of _ "out @ timingErrors h w p"] Cons.IH [of _ "timingErrors h w p"]
    by (simp add: convertTimingProp_eq)
qed

lemma fold_timing_console:
  "distinct ps \<Longrightarrow>
   snd (fold (convertTimingProp h) ps (w, out)) = out @ concat (map (timingErrors h w) ps)"
proof (induction ps arbitrary: w out)
  case Nil
  then show ?case by simp
next
  case (Cons p ps)
  have same: "map (timingErrors h (put w p (timingResult h p (get w p)))) ps = map (timingErrors h w) ps"
    using Cons.prems by (intro map_cong) (auto simp: timingErrors_def get_put)
  from Cons.prems have "distinct ps" by simp
  then show ?case
    by (simp add: convertTimingProp_eq Cons.IH same)
qed

lemma timingErrors_children:
  "map (timingErrors h (put props ''children'' v)) timingPropNames =
     map (timingErrors h props) timingPropNames"
  by (simp add: timingErrors_def timingPropNames_def get_put)

lemma timingErrorsFor_Nil: "timingErrorsFor prop [] = []"
  by (simp add: timingErrorsFor_def)

lemma timingErrorsFor_append:
  "timingErrorsFor prop (xs @ ys) = timingErrorsFor prop xs @ timingErrorsFor prop ys"
  by (simp add: timingErrorsFor_def)

lemma timingErrorsFor_timingErrors:
  "timingErrorsFor prop (timingErrors h w p) = (if p = prop then timingErrors h w p else [])"
  by (simp add: timingErrorsFor_def timingErrors_def)

lemma timingErrorsFor_concat:
  "distinct ps \<Longrightarrow>
   timingErrorsFor prop (concat (map (timingErrors h w) ps)) =
     (if prop \<in> set ps then timingErrors h w prop else [])"
  by (induction ps)
    (auto simp: timingErrorsFor_append timingErrorsFor_timingErrors timingErrorsFor_Nil)

section \<open>The whole conversion\<close>

lemma acceptDisableAnimations_eq:
  "acceptDisableAnimations props (w, out) =
     (if get props ''disableAnimations'' = Undefined then w
      else put (put w ''disableAnimations'' Undefined)
             ''disableAllAnimations'' (get props ''disableAnimations''),
      out @ deprecationWarning props)"
  by (simp add: typeof_undefined deprecationWarning_def)

declare acceptDisableAnimations.simps [simp del]

text \<open>The conversion never throws, and this is what it returns.\<close>

lemma convertProps_Inr:
  "convertProps h tp props =
     Inr (delegate tp (convertedProps h props),
          statelessWarning h props @ concat (map (timingErrors h props) timingPropNames)
            @ deprecationWarning props)"
proof -
  define b where "b = list_ex (\<lambda>c. isElementAnSFC h c \<and> hasKey c) (toArray (get props ''children''))"
  define w0 where "w0 = put props ''children'' (Arr (toArray (get props ''children'')))"
  have ev: "every (childAllowed h) (toArray (get props ''children'')) = Inr (\<not> b)"
    unfolding b_def by (rule every_children)
  have sw: "statelessWarning h props =
      (if b then [console_warn statelessFunctionalComponentSupplied] else [])"
    unfolding b_def statelessWarning_def by simp
  have con: "snd (fold (convertTimingProp h) timingPropNames (w0, out)) =
      out @ concat (map (timingErrors h props) timingPropNames)" for out
    unfolding w0_def by (simp add: fold_timing_console distinct_timing timingErrors_children)
  have wp: "fst (fold (convertTimingProp h) timingPropNames
                 (w0, [console_warn statelessFunctionalComponentSupplied])) =
      fst (fold (convertTimingProp h) timingPropNames (w0, []))"
    by (rule fold_timing_fst)
  show ?thesis
    unfolding convertProps_def convertedProps_def
    by (cases b)
      (simp_all add: Let_def ev sw split_beta acceptDisableAnimations_eq
        con [unfolded w0_def] wp [unfolded w0_def])
qed

lemma get_convertedProps:
  "get (convertedProps h props) k =
     (if k = ''disableAnimations'' \<and> get props ''disableAnimations'' \<noteq> Undefined then Undefined
      else if k = ''disableAllAnimations'' \<and> get props ''disableAnimations'' \<noteq> Undefined
        then get props ''disableAnimations''
      else if k = ''enterClassName'' \<or> k = ''leaveClassName'' then convertAnimationProp (get props k)
      else if k \<in> set timingPropNames then timingResult h k (get props k)
      else if k = ''children'' then Arr (toArray (get props ''children''))
      else get props k)"
  unfolding convertedProps_def convertAnimationProps_def
  by (auto simp: acceptDisableAnimations_eq get_put fold_timing_get distinct_timing Let_def
      timing_names)

lemma keys_convertedProps:
  "set (Object_keys (convertedProps h props)) =
     set (Object_keys props) \<union> {''children'', ''enterClassName'', ''leaveClassName''}
       \<union> set timingPropNames
       \<union> (if get props ''disableAnimations'' = Undefined then {}
           else {''disableAnimations'', ''disableAllAnimations''})"
  unfolding convertedProps_def convertAnimationProps_def
  by (auto simp: acceptDisableAnimations_eq keys_put fold_timing_keys Let_def)

section \<open>The timing props\<close>

lemma isNaN_Num: "isNaN h (Num n) = (n = NaN)"
  by (simp add: isNaN_def)

lemma timingErrorsFor_statelessWarning: "timingErrorsFor prop (statelessWarning h props) = []"
  by (simp add: timingErrorsFor_def statelessWarning_def)

lemma timingErrorsFor_deprecationWarning: "timingErrorsFor prop (deprecationWarning props) = []"
  by (simp add: timingErrorsFor_def deprecationWarning_def)

lemma get_out_timing:
  assumes "prop \<in> set timingPropNames"
  shows "get (delegate tp (convertedProps h props)) prop = timingResult h prop (get props prop)"
proof -
  from assms have "prop \<in> set primaryPropKeys" by (rule timing_primary)
  then have "get (delegate tp (convertedProps h props)) prop = get (convertedProps h props) prop"
    by (rule get_delegate_primary)
  also have "\<dots> = timingResult h prop (get props prop)"
    using assms by (auto simp: get_convertedProps timing_names)
  finally show ?thesis .
qed

lemma timing_defaults:
  "get (defaultProps h) ''duration'' = Num (Finite 350)"
  "get (defaultProps h) ''delay'' = Num (Finite 0)"
  "get (defaultProps h) ''staggerDurationBy'' = Num (Finite 0)"
  "get (defaultProps h) ''staggerDelayBy'' = Num (Finite 0)"
  by (simp_all add: defaultProps_def get_def)

text \<open>
  C1. Each of the four timing props is coerced on its own: a raw string is parsed by
  \<open>parseInt\<close> in base 10, any other raw value is used as it is. When the value is \<open>NaN\<close>
  (a \<open>NaN\<close> number passed directly included; \<open>isNaN\<close> decides), the console gets one
  error naming the prop, the value and the prop's own default, and the prop ends with
  that default: 350 for \<open>duration\<close>, 0 for the three others. When it is not, and so for
  every number other than \<open>NaN\<close> and every string that parses, the prop ends with the
  value and no error names it.
\<close>

theorem timing_coercion:
  assumes "prop \<in> set timingPropNames"
  shows "\<exists>out con. convertProps h this_props props = Inr (out, con) \<and>
     (let rawValue = get props prop;
          value = (if typeof rawValue = ''string'' then timingValue rawValue else rawValue);
          defaultValue = get (defaultProps h) prop
      in (\<forall>s. rawValue = Str s \<longrightarrow> value = Num (parseInt s)) \<and>
         (value = Num NaN \<longrightarrow> isNaN h value) \<and>
         (isNaN h value \<longrightarrow>
            get out prop = defaultValue \<and>
            timingErrorsFor prop con = [console_error (invalidTypeForTimingProp prop value defaultValue)]) \<and>
         (\<not> isNaN h value \<longrightarrow> get out prop = value \<and> timingErrorsFor prop con = []) \<and>
         (\<forall>n. value = Num n \<and> n \<noteq> NaN \<longrightarrow> get out prop = value \<and> timingErrorsFor prop con = []) \<and>
         defaultValue = (if prop = ''duration'' then Num (Finite 350) else Num (Finite 0)))"
proof -
  define val where "val = timingValue (get props prop)"
  have val: "(if typeof (get props prop) = ''string'' then timingValue (get props prop) else get props prop) = val"
    unfolding val_def by (cases "get props prop") simp_all
  have out: "get (delegate this_props (convertedProps h props)) prop =
      (if isNaN h val then get (defaultProps h) prop else val)"
    using get_out_timing [OF assms] by (simp add: timingResult_def val_def)
  have con: "timingErrorsFor prop
       (statelessWarning h props @ concat (map (timingErrors h props) timingPropNames)
         @ deprecationWarning props) =
      (if isNaN h val
       then [console_error (invalidTypeForTimingProp prop val (get (defaultProps h) prop))]
       else [])"
    using assms
    by (simp add: timingErrorsFor_append timingErrorsFor_statelessWarning
        timingErrorsFor_deprecationWarning timingErrorsFor_concat distinct_timing
        timingErrors_def val_def)
  have parsed: "get props prop = Str s \<Longrightarrow> val = Num (parseInt s)" for s
    by (simp add: val_def)
  have dflt: "get (defaultProps h) prop = (if prop = ''duration'' then Num (Finite 350) else Num (Finite 0))"
    using assms by (auto simp: timing_names timing_defaults)
  show ?thesis
    unfolding convertProps_Inr Let_def val
    using out con parsed dflt by (auto simp: isNaN_Num)
qed

text \<open>
  The string \<open>abc\<close> does not parse: \<open>duration\<close> falls back to 350, with one error. The
  string \<open>250ms\<close> after a blank parses: \<open>delay\<close> ends with 250, with no error.
\<close>

theorem timing_coercion_witness:
  "''duration'' \<in> set timingPropNames \<and> ''delay'' \<in> set timingPropNames \<and>
   (\<exists>out con. convertProps example_host [] [(''duration'', Str ''abc'')] = Inr (out, con) \<and>
      get out ''duration'' = Num (Finite 350) \<and>
      timingErrorsFor ''duration'' con =
        [console_error (invalidTypeForTimingProp ''duration'' (Num NaN) (Num (Finite 350)))]) \<and>
   (\<exists>out con. convertProps example_host [] [(''delay'', Str '' 250ms'')] = Inr (out, con) \<and>
      get out ''delay'' = Num (Finite 250) \<and> timingErrorsFor ''delay'' con = [])"
  using timing_coercion [of "''duration''" example_host "[]" "[(''duration'', Str ''abc'')]"]
    timing_coercion [of "''delay''" example_host "[]" "[(''delay'', Str '' 250ms'')]"]
  by (auto simp: timingPropNames_def Let_def get_Cons get_Nil parseInt_def isWhiteSpace_def
      isDigit_def digitValue_def double_of_int_def isNaN_def timing_defaults)

lemma double_of_int_cases:
  "double_of_int n = PosInfinity \<or> double_of_int n = NegInfinity \<or>
     (\<exists>i. double_of_int n = Finite (of_int i))"
  unfolding double_of_int_def Let_def by (metis (full_types))

lemma parseInt_cases:
  "parseInt s = NaN \<or> parseInt s = PosInfinity \<or> parseInt s = NegInfinity \<or>
     (\<exists>i. parseInt s = Finite (of_int i))"
  unfolding parseInt_def Let_def using double_of_int_cases by presburger

lemma timingValue_not_string: "typeof (timingValue v) \<noteq> ''string''"
  by (cases v) simp_all

lemma timingValue_string:
  "typeof v = ''string'' \<Longrightarrow>
     timingValue v = Num NaN \<or> isInteger (timingValue v) \<or> isInfinity (timingValue v)"
proof (cases v)
  case (Str s)
  with parseInt_cases [of s] show ?thesis by auto
qed simp_all

lemma timingValue_other: "typeof v \<noteq> ''string'' \<Longrightarrow> timingValue v = v"
  by (cases v) simp_all

lemma timing_default_integer:
  "prop \<in> set timingPropNames \<Longrightarrow>
     isInteger (get (defaultProps h) prop) \<and> \<not> isNaN h (get (defaultProps h) prop) \<and>
     typeof (get (defaultProps h) prop) = ''number''"
  by (auto simp: timing_names timing_defaults isNaN_Num)

text \<open>
  C2, as the code has it. After the conversion a timing prop is never a string and never
  \<open>NaN\<close>. A raw string gives an integer (the parsed one or the integer default) or, when
  its digits overflow a double, an infinity. A raw value that is not a string is kept as
  it is unless \<open>isNaN\<close> holds of it, in which case the integer default takes its place:
  nothing rounds a number the caller passed, so a number that is not an integer stays.
\<close>

theorem timing_fields_wellformed:
  assumes "prop \<in> set timingPropNames"
  shows "\<exists>out con. convertProps h this_props props = Inr (out, con) \<and>
     typeof (get out prop) \<noteq> ''string'' \<and>
     get out prop \<noteq> Num NaN \<and>
     \<not> isNaN h (get out prop) \<and>
     (typeof (get props prop) = ''string'' \<longrightarrow>
        isInteger (get out prop) \<or> isInfinity (get out prop)) \<and>
     (typeof (get props prop) \<noteq> ''string'' \<longrightarrow>
        get out prop = (if isNaN h (get props prop) then get (defaultProps h) prop
                        else get props prop)) \<and>
     isInteger (get (defaultProps h) prop)"
proof -
  let ?raw = "get props prop"
  let ?out = "get (delegate this_props (convertedProps h props)) prop"
  note d = timing_default_integer [OF assms, of h]
  have out: "?out = (if isNaN h (timingValue ?raw) then get (defaultProps h) prop else timingValue ?raw)"
    using get_out_timing [OF assms] by (simp add: timingResult_def)
  have 1: "typeof ?out \<noteq> ''string''"
    using d timingValue_not_string [of ?raw] by (simp add: out)
  have 2: "\<not> isNaN h ?out"
    using d by (simp add: out)
  then have 3: "?out \<noteq> Num NaN"
    by (auto simp: isNaN_Num)
  have 4: "isInteger ?out \<or> isInfinity ?out" if "typeof ?raw = ''string''"
    using timingValue_string [OF that] d by (auto simp: out isNaN_Num)
  have 5: "?out = (if isNaN h ?raw then get (defaultProps h) prop else ?raw)"
    if "typeof ?raw \<noteq> ''string''"
    using timingValue_other [OF that] by (simp add: out)
  show ?thesis
    unfolding convertProps_Inr using 1 2 3 4 5 d by blast
qed

text \<open>
  The string \<open>12px\<close> gives a \<open>delay\<close> that is an integer, not a string and not \<open>NaN\<close>; the
  number 7 is not a string and \<open>isNaN\<close> does not hold of it, so it is the \<open>delay\<close>.
\<close>

theorem timing_fields_wellformed_witness:
  "''delay'' \<in> set timingPropNames \<and>
   (\<exists>out con. convertProps example_host [] [(''delay'', Str ''12px'')] = Inr (out, con) \<and>
      (isInteger (get out ''delay'') \<or> isInfinity (get out ''delay'')) \<and>
      get out ''delay'' \<noteq> Num NaN \<and> typeof (get out ''delay'') \<noteq> ''string'') \<and>
   (\<exists>out con. convertProps example_host [] [(''delay'', Num (Finite 7))] = Inr (out, con) \<and>
      get out ''delay'' = Num (Finite 7))"
  using timing_fields_wellformed [of "''delay''" example_host "[]" "[(''delay'', Str ''12px'')]"]
    timing_fields_wellformed [of "''delay''" example_host "[]" "[(''delay'', Num (Finite 7))]"]
  by (auto simp: timingPropNames_def get_Cons get_Nil isNaN_def)

text \<open>
  C2 as stated fails: the caller's \<open>duration\<close> of 1.5 is a number, so it is not parsed,
  and it is the canonical \<open>duration\<close>, which is not an integer.
\<close>

theorem non_integer_duration_kept:
  "normalize example_host [(''duration'', Num (Finite (3 / 2)))] =
     Inr ([(''duration'', Num (Finite (3 / 2))),
           (''easing'', Str ''ease-in-out''),
           (''delay'', Num (Finite 0)),
           (''staggerDurationBy'', Num (Finite 0)),
           (''staggerDelayBy'', Num (Finite 0)),
           (''typeName'', Str ''div''),
           (''enterClassName'', Thunk (Str ''elevator'')),
           (''leaveClassName'', Thunk (Str ''elevator'')),
           (''disableAllAnimations'', Bool False),
           (''getPosition'', Function ''node => node.getBoundingClientRect()''),
           (''maintainContainerHeight'', Bool False),
           (''children'', Arr []),
           (''delegated'', Obj [(''style'', Obj [(''position'', Str ''relative'')])])],
          []) \<and>
   \<not> isInteger (Num (Finite (3 / 2)))"
  by (simp add: normalize_def render_def resolveDefaultProps_def defaultProps_def example_host_def
      convertProps_def Let_def get_Cons get_Nil put_def childAllowed_def timingPropNames_def
      convertTimingProp.simps isNaN_def convertAnimationProps_def convertAnimationProp_def
      acceptDisableAnimations.simps delegate_def delegatedProps_def omit_def primaryPropKeys_def
      propTypes_def spread_def Object_keys_def)

section \<open>The deprecated prop and the delegated props\<close>

lemma count_warn_timingErrors:
  "count_list (concat (map (timingErrors h props) ps)) (console_warn m) = 0"
  by (induction ps) (auto simp: timingErrors_def)

lemma key_of_defined: "get obj k \<noteq> Undefined \<Longrightarrow> k \<in> set (Object_keys obj)"
  using get_absent by blast

lemma disableAnimations_off_top:
  "''disableAnimations'' \<notin> set (Object_keys (delegate props (convertedProps h props)))"
  using key_of_defined [of props "''disableAnimations''"] disableAnimations_not_primary
  by (auto simp: keys_delegate keys_convertedProps timing_names split: if_splits)

text \<open>
  C3, as the code has it. The test is \<open>typeof props.disableAnimations !== 'undefined'\<close>.
  When the caller's \<open>disableAnimations\<close> is anything but undefined (false and null
  included), the console gets exactly one deprecation warning and \<open>disableAllAnimations\<close>
  ends with that value, whatever it held. When it is absent or undefined, there is no
  deprecation warning and \<open>disableAllAnimations\<close> keeps the value it was given. Either
  way what \<open>render\<close> hands on has no \<open>disableAnimations\<close> at its top level.
\<close>

theorem disableAnimations_shim:
  "\<exists>out con. render h props = Inr (out, con) \<and>
     ''disableAnimations'' \<notin> set (Object_keys out) \<and>
     (if get props ''disableAnimations'' = Undefined
      then count_list con (console_warn deprecatedDisableAnimations) = 0 \<and>
           get out ''disableAllAnimations'' = get props ''disableAllAnimations''
      else count_list con (console_warn deprecatedDisableAnimations) = 1 \<and>
           get out ''disableAllAnimations'' = get props ''disableAnimations'')"
proof -
  let ?out = "delegate props (convertedProps h props)"
  have "get ?out ''disableAllAnimations'' =
      (if get props ''disableAnimations'' = Undefined then get props ''disableAllAnimations''
       else get props ''disableAnimations'')"
    by (simp add: get_delegate_primary primary_members get_convertedProps timing_names)
  moreover have "count_list (statelessWarning h props) (console_warn deprecatedDisableAnimations) = 0"
    by (simp add: statelessWarning_def)
  moreover have "count_list (deprecationWarning props) (console_warn deprecatedDisableAnimations) =
      (if get props ''disableAnimations'' = Undefined then 0 else 1)"
    by (simp add: deprecationWarning_def)
  ultimately show ?thesis
    unfolding render_def convertProps_Inr
    using disableAnimations_off_top [of props h] by (simp add: count_warn_timingErrors)
qed

text \<open>
  The caller writes \<open>disableAnimations: false\<close> and nothing else: React fills in the
  defaults, \<open>disableAllAnimations\<close> ends false by the shim, with one warning. The caller
  writes \<open>disableAllAnimations: true\<close> and nothing else: it stays, with no warning.
\<close>

theorem disableAnimations_shim_witness:
  "(\<exists>out con. normalize example_host [(''disableAnimations'', Bool False)] = Inr (out, con) \<and>
     ''disableAnimations'' \<notin> set (Object_keys out) \<and>
     count_list con (console_warn deprecatedDisableAnimations) = 1 \<and>
     get out ''disableAllAnimations'' = Bool False) \<and>
   (\<exists>out con. normalize example_host [(''disableAllAnimations'', Bool True)] = Inr (out, con) \<and>
     ''disableAnimations'' \<notin> set (Object_keys out) \<and>
     count_list con (console_warn deprecatedDisableAnimations) = 0 \<and>
     get out ''disableAllAnimations'' = Bool True)"
  using disableAnimations_shim
    [of example_host "resolveDefaultProps example_host [(''disableAnimations'', Bool False)]"]
    disableAnimations_shim
    [of example_host "resolveDefaultProps example_host [(''disableAllAnimations'', Bool True)]"]
  by (simp add: normalize_def resolveDefaultProps_def defaultProps_def get_Cons get_Nil put_def)

text \<open>
  C3 as stated fails: a caller who writes \<open>disableAnimations: undefined\<close> has the field on
  the raw input, and no deprecation warning is written.
\<close>

theorem disableAnimations_undefined_silent:
  "''disableAnimations'' \<in> set (Object_keys [(''disableAnimations'', Undefined)]) \<and>
   normalize example_host [(''disableAnimations'', Undefined)] =
     Inr ([(''easing'', Str ''ease-in-out''),
           (''duration'', Num (Finite 350)),
           (''delay'', Num (Finite 0)),
           (''staggerDurationBy'', Num (Finite 0)),
           (''staggerDelayBy'', Num (Finite 0)),
           (''typeName'', Str ''div''),
           (''enterClassName'', Thunk (Str ''elevator'')),
           (''leaveClassName'', Thunk (Str ''elevator'')),
           (''disableAllAnimations'', Bool False),
           (''getPosition'', Function ''node => node.getBoundingClientRect()''),
           (''maintainContainerHeight'', Bool False),
           (''children'', Arr []),
           (''delegated'', Obj [(''disableAnimations'', Undefined),
                                (''style'', Obj [(''position'', Str ''relative'')])])],
          [])"
  by (simp add: normalize_def render_def resolveDefaultProps_def defaultProps_def example_host_def
      convertProps_def Let_def get_Cons get_Nil put_def childAllowed_def timingPropNames_def
      convertTimingProp.simps isNaN_def convertAnimationProps_def convertAnimationProp_def
      acceptDisableAnimations.simps delegate_def delegatedProps_def omit_def primaryPropKeys_def
      propTypes_def spread_def Object_keys_def)

text \<open>
  C10. A caller who writes \<open>disableAnimations\<close> finds it, with the value written, inside
  \<open>delegated\<close>: the name is not a key of \<open>propTypes\<close>, so \<open>omit\<close> keeps it there, and it
  is taken off the top level.
\<close>

theorem disableAnimations_delegated:
  assumes "''disableAnimations'' \<in> set (Object_keys props)"
  shows "\<exists>out con d. render h props = Inr (out, con) \<and>
     get out ''delegated'' = Obj d \<and>
     ''disableAnimations'' \<in> set (Object_keys d) \<and>
     get d ''disableAnimations'' = get props ''disableAnimations'' \<and>
     ''disableAnimations'' \<notin> set (Object_keys out)"
proof -
  have "''disableAnimations'' \<in> set (Object_keys (delegatedProps props))"
    using assms disableAnimations_not_primary by (simp add: keys_delegatedProps)
  moreover have "get (delegatedProps props) ''disableAnimations'' = get props ''disableAnimations''"
    using disableAnimations_not_primary by (simp add: get_delegatedProps)
  ultimately show ?thesis
    unfolding render_def convertProps_Inr
    using disableAnimations_off_top [of props h] by (simp add: get_delegate)
qed

text \<open>The caller writes \<open>disableAnimations: true\<close>: it is found inside \<open>delegated\<close>.\<close>

theorem disableAnimations_delegated_witness:
  "''disableAnimations'' \<in> set (Object_keys [(''disableAnimations'', Bool True)]) \<and>
   (\<exists>out con d. render example_host [(''disableAnimations'', Bool True)] = Inr (out, con) \<and>
      get out ''delegated'' = Obj d \<and>
      get d ''disableAnimations'' = Bool True \<and>
      ''disableAnimations'' \<notin> set (Object_keys out))"
  using disableAnimations_delegated [of "[(''disableAnimations'', Bool True)]" example_host]
  by (auto simp: Object_keys_def get_Cons)

lemma keys_singleton: "Object_keys [(k, v)] = [k]"
  by (simp add: Object_keys_def)

lemma style_merge_get:
  "get (spread [(''position'', Str ''relative'')] style) k =
     (if k \<in> set (Object_keys (own_entries style)) then get (own_entries style) k
      else if k = ''position'' then Str ''relative'' else Undefined)"
  by (simp add: get_spread get_Cons get_Nil)

lemma style_merge_keys:
  "set (Object_keys (spread [(''position'', Str ''relative'')] style)) =
     insert ''position'' (set (Object_keys (own_entries style)))"
  by (simp add: keys_spread keys_singleton)

text \<open>
  C4, as the code has it. What \<open>render\<close> hands on has a \<open>delegated\<close> object. Its \<open>style\<close>
  is an object whose keys are \<open>position\<close> and the own keys of the caller's \<open>style\<close>; each
  key of the caller's \<open>style\<close> has the caller's value, \<open>position\<close> among them, and
  \<open>position\<close> is \<open>relative\<close> when the caller's \<open>style\<close> does not set it. The keys of
  \<open>delegated\<close> are \<open>style\<close> and the caller's keys that are not keys of \<open>propTypes\<close>; each
  of these but \<open>style\<close> has the caller's value there, and none of them is a key of the
  top level, except the name \<open>delegated\<close> itself, under which the top level holds the
  delegated object.
\<close>

theorem delegated_style_and_fields:
  "\<exists>out con d st. render h props = Inr (out, con) \<and>
     get out ''delegated'' = Obj d \<and>
     get d ''style'' = Obj st \<and>
     set (Object_keys st) = insert ''position'' (set (Object_keys (own_entries (get props ''style'')))) \<and>
     (\<forall>k. get st k =
        (if k \<in> set (Object_keys (own_entries (get props ''style'')))
         then get (own_entries (get props ''style'')) k
         else if k = ''position'' then Str ''relative'' else Undefined)) \<and>
     set (Object_keys d) = insert ''style'' (set (Object_keys props) - set primaryPropKeys) \<and>
     ''style'' \<notin> set (Object_keys out) \<and>
     (\<forall>k \<in> set (Object_keys props) - set primaryPropKeys.
        (k \<noteq> ''style'' \<longrightarrow> get d k = get props k) \<and>
        (k \<noteq> ''delegated'' \<longrightarrow> k \<notin> set (Object_keys out)))"
proof -
  let ?d = "delegatedProps props"
  let ?st = "spread [(''position'', Str ''relative'')] (get props ''style'')"
  let ?out = "delegate props (convertedProps h props)"
  have 1: "get ?out ''delegated'' = Obj ?d"
    by (simp add: get_delegate)
  have 2: "get ?d ''style'' = Obj ?st"
    by (simp add: get_delegatedProps)
  have 3: "''style'' \<notin> set (Object_keys ?out)"
    by (simp add: keys_delegate)
  have 4: "get ?d k = get props k" if "k \<in> set (Object_keys props) - set primaryPropKeys" "k \<noteq> ''style''" for k
    using that by (simp add: get_delegatedProps)
  have 5: "k \<notin> set (Object_keys ?out)"
    if "k \<in> set (Object_keys props) - set primaryPropKeys" "k \<noteq> ''delegated''" for k
    using that by (simp add: keys_delegate)
  show ?thesis
    unfolding render_def convertProps_Inr
    using 1 2 3 4 5 style_merge_keys [of "get props ''style''"]
      style_merge_get [of "get props ''style''"] keys_delegatedProps [of props]
    by blast
qed

text \<open>
  The caller writes \<open>foo\<close>, a \<open>style\<close> with a colour, and \<open>maintainContainerHeight\<close>:
  \<open>delegated\<close> holds \<open>foo\<close> and the style with \<open>position: relative\<close> and the colour, and
  the top level has neither \<open>foo\<close> nor \<open>style\<close>.
\<close>

theorem delegated_style_and_fields_witness:
  "\<exists>out con d st.
     normalize example_host
       [(''foo'', Num (Finite 1)), (''style'', Obj [(''color'', Str ''red'')]),
        (''maintainContainerHeight'', Bool False)] = Inr (out, con) \<and>
     get out ''delegated'' = Obj d \<and> get d ''style'' = Obj st \<and>
     get st ''position'' = Str ''relative'' \<and> get st ''color'' = Str ''red'' \<and>
     set (Object_keys st) = {''position'', ''color''} \<and>
     get d ''foo'' = Num (Finite 1) \<and>
     ''foo'' \<notin> set (Object_keys out) \<and> ''style'' \<notin> set (Object_keys out)"
proof -
  define props where "props = resolveDefaultProps example_host
       [(''foo'', Num (Finite 1)), (''style'', Obj [(''color'', Str ''red'')]),
        (''maintainContainerHeight'', Bool False)]"
  have style: "get props ''style'' = Obj [(''color'', Str ''red'')]"
    unfolding props_def
    by (simp add: resolveDefaultProps_def defaultProps_def get_Cons get_Nil put_def)
  have foo: "get props ''foo'' = Num (Finite 1)"
    unfolding props_def
    by (simp add: resolveDefaultProps_def defaultProps_def get_Cons get_Nil put_def)
  have "''foo'' \<in> set (Object_keys props)"
    unfolding props_def
    by (simp add: resolveDefaultProps_def defaultProps_def get_Cons get_Nil put_def Object_keys_def)
  moreover have "''foo'' \<notin> set primaryPropKeys"
    by (simp add: primaryPropKeys_def propTypes_def)
  ultimately have key: "''foo'' \<in> set (Object_keys props) - set primaryPropKeys"
    by simp
  obtain out con d st where
    *: "render example_host props = Inr (out, con) \<and>
     get out ''delegated'' = Obj d \<and>
     get d ''style'' = Obj st \<and>
     set (Object_keys st) = insert ''position'' (set (Object_keys (own_entries (get props ''style'')))) \<and>
     (\<forall>k. get st k =
        (if k \<in> set (Object_keys (own_entries (get props ''style'')))
         then get (own_entries (get props ''style'')) k
         else if k = ''position'' then Str ''relative'' else Undefined)) \<and>
     set (Object_keys d) = insert ''style'' (set (Object_keys props) - set primaryPropKeys) \<and>
     ''style'' \<notin> set (Object_keys out) \<and>
     (\<forall>k \<in> set (Object_keys props) - set primaryPropKeys.
        (k \<noteq> ''style'' \<longrightarrow> get d k = get props k) \<and>
        (k \<noteq> ''delegated'' \<longrightarrow> k \<notin> set (Object_keys out)))"
    using delegated_style_and_fields [of example_host props] by (elim exE) (rule that)
  from * have r: "render example_host props = Inr (out, con)" by (elim conjE)
  from * have d: "get out ''delegated'' = Obj d" by (elim conjE)
  from * have st: "get d ''style'' = Obj st" by (elim conjE)
  from * have ks: "set (Object_keys st) =
      insert ''position'' (set (Object_keys (own_entries (get props ''style''))))" by (elim conjE)
  from * have gs: "\<forall>k. get st k =
        (if k \<in> set (Object_keys (own_entries (get props ''style'')))
         then get (own_entries (get props ''style'')) k
         else if k = ''position'' then Str ''relative'' else Undefined)" by (elim conjE)
  from * have top: "''style'' \<notin> set (Object_keys out)" by (elim conjE)
  from * have fields: "\<forall>k \<in> set (Object_keys props) - set primaryPropKeys.
        (k \<noteq> ''style'' \<longrightarrow> get d k = get props k) \<and>
        (k \<noteq> ''delegated'' \<longrightarrow> k \<notin> set (Object_keys out))" by (elim conjE)
  have p: "get st ''position'' = Str ''relative''"
    by (simp add: gs [rule_format] style keys_singleton)
  have c: "get st ''color'' = Str ''red''"
    by (simp add: gs [rule_format] style keys_singleton get_Cons)
  have k: "set (Object_keys st) = {''position'', ''color''}"
    by (simp add: ks style keys_singleton)
  have f: "get d ''foo'' = Num (Finite 1) \<and> ''foo'' \<notin> set (Object_keys out)"
    using fields [rule_format, OF key] by (simp add: foo)
  show ?thesis
    unfolding normalize_def props_def [symmetric]
    by (rule exI [of _ out], rule exI [of _ con], rule exI [of _ d], rule exI [of _ st])
      (simp only: r d st p c k f top simp_thms)
qed

text \<open>
  C4 as stated fails for a caller field named \<open>delegated\<close>: it is not a key of
  \<open>propTypes\<close>, it is inside the delegated object, and \<open>delegated\<close> is a key of the top
  level all the same.
\<close>

theorem field_named_delegated_on_top:
  "''delegated'' \<notin> set primaryPropKeys \<and>
   normalize example_host [(''delegated'', Num (Finite 1))] =
     Inr ([(''easing'', Str ''ease-in-out''),
           (''duration'', Num (Finite 350)),
           (''delay'', Num (Finite 0)),
           (''staggerDurationBy'', Num (Finite 0)),
           (''staggerDelayBy'', Num (Finite 0)),
           (''typeName'', Str ''div''),
           (''enterClassName'', Thunk (Str ''elevator'')),
           (''leaveClassName'', Thunk (Str ''elevator'')),
           (''disableAllAnimations'', Bool False),
           (''getPosition'', Function ''node => node.getBoundingClientRect()''),
           (''maintainContainerHeight'', Bool False),
           (''children'', Arr []),
           (''delegated'', Obj [(''delegated'', Num (Finite 1)),
                                (''style'', Obj [(''position'', Str ''relative'')])])],
          [])"
  by (simp add: normalize_def render_def resolveDefaultProps_def defaultProps_def example_host_def
      convertProps_def Let_def get_Cons get_Nil put_def childAllowed_def timingPropNames_def
      convertTimingProp.simps isNaN_def convertAnimationProps_def convertAnimationProp_def
      acceptDisableAnimations.simps delegate_def delegatedProps_def omit_def primaryPropKeys_def
      propTypes_def spread_def Object_keys_def)

text \<open>
  C5, as the code has it. The keys of the delegated object and the keys of the top level
  have nothing in common but, when \<open>this.props\<close> has a field named \<open>delegated\<close>, that name:
  the delegated keys are taken off the working copy before \<open>delegated\<close> is written to it.
\<close>

theorem delegated_keys_disjoint:
  "\<exists>out con d. convertProps h this_props props = Inr (out, con) \<and>
     get out ''delegated'' = Obj d \<and>
     set (Object_keys d) \<inter> set (Object_keys out) =
       (if ''delegated'' \<in> set (Object_keys this_props) then {''delegated''} else {})"
proof -
  have "set (Object_keys (delegatedProps this_props))
          \<inter> set (Object_keys (delegate this_props (convertedProps h props))) =
       (if ''delegated'' \<in> set (Object_keys this_props) then {''delegated''} else {})"
    using delegated_not_primary by (auto simp: keys_delegate keys_delegatedProps)
  then show ?thesis
    unfolding convertProps_Inr by (simp add: get_delegate)
qed

text \<open>A caller who writes a \<open>className\<close> only: the two sets of keys share nothing.\<close>

theorem delegated_keys_disjoint_witness:
  "\<exists>out con d.
     convertProps example_host [(''className'', Str ''list'')] [(''className'', Str ''list'')] =
       Inr (out, con) \<and>
     get out ''delegated'' = Obj d \<and>
     set (Object_keys d) \<inter> set (Object_keys out) = {}"
  using delegated_keys_disjoint
    [of example_host "[(''className'', Str ''list'')]" "[(''className'', Str ''list'')]"]
  by (simp add: Object_keys_def)

text \<open>
  C5 as stated fails: with a caller field named \<open>delegated\<close> the name is a key of the
  delegated object and a key of the top level.
\<close>

theorem delegated_key_on_both_sides:
  "normalize example_host [(''delegated'', Bool True), (''className'', Str ''list'')] =
     Inr ([(''easing'', Str ''ease-in-out''),
           (''duration'', Num (Finite 350)),
           (''delay'', Num (Finite 0)),
           (''staggerDurationBy'', Num (Finite 0)),
           (''staggerDelayBy'', Num (Finite 0)),
           (''typeName'', Str ''div''),
           (''enterClassName'', Thunk (Str ''elevator'')),
           (''leaveClassName'', Thunk (Str ''elevator'')),
           (''disableAllAnimations'', Bool False),
           (''getPosition'', Function ''node => node.getBoundingClientRect()''),
           (''maintainContainerHeight'', Bool False),
           (''children'', Arr []),
           (''delegated'', Obj [(''delegated'', Bool True),
                                (''className'', Str ''list''),
                                (''style'', Obj [(''position'', Str ''relative'')])])],
          []) \<and>
   ''delegated'' \<in> set (Object_keys [(''delegated'', Bool True), (''className'', Str ''list''),
                                     (''style'', Obj [(''position'', Str ''relative'')])])"
  by (simp add: normalize_def render_def resolveDefaultProps_def defaultProps_def example_host_def
      convertProps_def Let_def get_Cons get_Nil put_def childAllowed_def timingPropNames_def
      convertTimingProp.simps isNaN_def convertAnimationProps_def convertAnimationProp_def
      acceptDisableAnimations.simps delegate_def delegatedProps_def omit_def primaryPropKeys_def
      propTypes_def spread_def Object_keys_def)

section \<open>The animation props\<close>

lemma get_out_animation:
  assumes "k = ''enterClassName'' \<or> k = ''leaveClassName''"
  shows "get (delegate tp (convertedProps h props)) k = convertAnimationProp (get props k)"
proof -
  from assms have "k \<in> set primaryPropKeys"
    using primary_members by auto
  then have "get (delegate tp (convertedProps h props)) k = get (convertedProps h props) k"
    by (rule get_delegate_primary)
  also have "\<dots> = convertAnimationProp (get props k)"
    using assms by (auto simp: get_convertedProps)
  finally show ?thesis .
qed

lemma convertAnimationProp_function:
  "typeof animation = ''function'' \<Longrightarrow> convertAnimationProp animation = animation"
  by (simp add: convertAnimationProp_def)

lemma convertAnimationProp_other:
  "typeof animation \<noteq> ''function'' \<Longrightarrow>
     typeof (convertAnimationProp animation) = ''function'' \<and>
     call (convertAnimationProp animation) args = Some animation"
  by (simp add: convertAnimationProp_def)

text \<open>
  C6. \<open>enterClassName\<close> and \<open>leaveClassName\<close> are converted each from its own value. A
  value that is a function is handed on as it is. Any other value (a boolean, a preset
  name, a shape object) is replaced by a function that returns that very value,
  whatever it is called with.
\<close>

theorem animation_props_callable:
  "\<exists>out con. convertProps h this_props props = Inr (out, con) \<and>
     (\<forall>k \<in> {''enterClassName'', ''leaveClassName''}.
        (typeof (get props k) = ''function'' \<longrightarrow> get out k = get props k) \<and>
        (typeof (get props k) \<noteq> ''function'' \<longrightarrow>
           typeof (get out k) = ''function'' \<and>
           (\<forall>args. call (get out k) args = Some (get props k))))"
  unfolding convertProps_Inr
  using convertAnimationProp_function convertAnimationProp_other
  by (simp add: get_out_animation)

text \<open>
  A shape object for entering and a function for leaving: calling the first result gives
  the shape back, the second result is the function.
\<close>

theorem animation_props_callable_witness:
  "\<exists>out con.
     convertProps example_host []
       [(''enterClassName'', Obj [(''from'', Str ''a''), (''to'', Str ''b'')]),
        (''leaveClassName'', Function ''fn'')] = Inr (out, con) \<and>
     call (get out ''enterClassName'') [] = Some (Obj [(''from'', Str ''a''), (''to'', Str ''b'')]) \<and>
     get out ''leaveClassName'' = Function ''fn''"
  using animation_props_callable [of example_host "[]"
      "[(''enterClassName'', Obj [(''from'', Str ''a''), (''to'', Str ''b'')]),
        (''leaveClassName'', Function ''fn'')]"]
  by (auto simp: get_Cons get_Nil)

section \<open>The children\<close>

lemma children_on_top:
  "''children'' \<in> set (Object_keys (delegate tp (convertedProps h props)))"
  using primary_members(1) primary_plain [of "''children''"]
  by (simp add: keys_delegate keys_convertedProps)

lemma get_out_children:
  "get (delegate tp (convertedProps h props)) ''children'' = Arr (toArray (get props ''children''))"
  using primary_members(1)
  by (simp add: get_delegate_primary get_convertedProps timing_names)

text \<open>
  C7. The conversion returns, whatever the props are, and \<open>children\<close> is then a key of
  the result and holds an array (so nothing falsy, and never a bare child): the children
  in the order they were written. No entry of it is an array, null, undefined or a
  boolean. One child element gives the array of that one element, undefined children
  give the empty array, and an array of single children comes out as it is.
\<close>

theorem children_canonical:
  "\<exists>out con cs. convertProps h this_props props = Inr (out, con) \<and>
     ''children'' \<in> set (Object_keys out) \<and>
     get out ''children'' = Arr cs \<and> truthy (get out ''children'') \<and>
     cs = toArray (get props ''children'') \<and>
     (\<forall>c \<in> set cs. c \<noteq> Undefined \<and> c \<noteq> Null \<and> (\<forall>b. c \<noteq> Bool b) \<and> (\<forall>xs. c \<noteq> Arr xs)) \<and>
     (\<forall>e. get props ''children'' = Obj e \<longrightarrow> cs = [Obj e]) \<and>
     (get props ''children'' = Undefined \<longrightarrow> cs = []) \<and>
     (\<forall>xs. get props ''children'' = Arr xs \<and> (\<forall>x \<in> set xs. toArray x = [x]) \<longrightarrow> cs = xs)"
proof -
  let ?cs = "toArray (get props ''children'')"
  let ?out = "delegate this_props (convertedProps h props)"
  have top: "''children'' \<in> set (Object_keys ?out)"
    by (rule children_on_top)
  have val: "get ?out ''children'' = Arr ?cs"
    by (rule get_out_children)
  have tr: "truthy (get ?out ''children'')"
    by (simp add: val)
  have entries: "\<forall>c \<in> set ?cs. c \<noteq> Undefined \<and> c \<noteq> Null \<and> (\<forall>b. c \<noteq> Bool b) \<and> (\<forall>xs. c \<noteq> Arr xs)"
    using toArray_defined toArray_no_bool toArray_flat by blast
  have one: "\<forall>e. get props ''children'' = Obj e \<longrightarrow> ?cs = [Obj e]"
    by simp
  have none: "get props ''children'' = Undefined \<longrightarrow> ?cs = []"
    by simp
  have flat: "\<forall>xs. get props ''children'' = Arr xs \<and> (\<forall>x \<in> set xs. toArray x = [x]) \<longrightarrow> ?cs = xs"
    by (simp add: concat_leaves)
  show ?thesis
    unfolding convertProps_Inr
    by (rule exI [of _ ?out],
        rule exI [of _ "statelessWarning h props
          @ concat (map (timingErrors h props) timingPropNames) @ deprecationWarning props"],
        rule exI [of _ ?cs])
      (intro conjI refl top val tr entries one none flat)
qed

text \<open>
  One element as the only child: the canonical children are the array of it. No
  children: the empty array. Two elements in an array: the same two, in their order.
\<close>

theorem children_canonical_witness:
  "(\<exists>out con.
     convertProps example_host []
       [(''children'', Obj [(''type'', Str ''li''), (''key'', Str ''a'')])] = Inr (out, con) \<and>
     ''children'' \<in> set (Object_keys out) \<and>
     get out ''children'' = Arr [Obj [(''type'', Str ''li''), (''key'', Str ''a'')]]) \<and>
   (\<exists>out con. convertProps example_host [] [] = Inr (out, con) \<and> get out ''children'' = Arr []) \<and>
   (\<exists>out con.
     convertProps example_host []
       [(''children'', Arr [Obj [(''key'', Str ''a'')], Obj [(''key'', Str ''b'')]])] = Inr (out, con) \<and>
     ''children'' \<in> set (Object_keys out) \<and>
     get out ''children'' = Arr [Obj [(''key'', Str ''a'')], Obj [(''key'', Str ''b'')]])"
proof -
  have one: "\<exists>out con. convertProps example_host [] [(''children'', v)] = Inr (out, con) \<and>
      ''children'' \<in> set (Object_keys out) \<and> get out ''children'' = Arr (toArray v)" for v
  proof -
    obtain out con cs where
      *: "convertProps example_host [] [(''children'', v)] = Inr (out, con) \<and>
       ''children'' \<in> set (Object_keys out) \<and>
       get out ''children'' = Arr cs \<and> truthy (get out ''children'') \<and>
       cs = toArray (get [(''children'', v)] ''children'') \<and>
       (\<forall>c \<in> set cs. c \<noteq> Undefined \<and> c \<noteq> Null \<and> (\<forall>b. c \<noteq> Bool b) \<and> (\<forall>xs. c \<noteq> Arr xs)) \<and>
       (\<forall>e. get [(''children'', v)] ''children'' = Obj e \<longrightarrow> cs = [Obj e]) \<and>
       (get [(''children'', v)] ''children'' = Undefined \<longrightarrow> cs = []) \<and>
       (\<forall>xs. get [(''children'', v)] ''children'' = Arr xs \<and> (\<forall>x \<in> set xs. toArray x = [x])
          \<longrightarrow> cs = xs)"
      using children_canonical [of example_host "[]" "[(''children'', v)]"]
      by (elim exE) (rule that)
    from * have r: "convertProps example_host [] [(''children'', v)] = Inr (out, con)"
      by (elim conjE)
    from * have k: "''children'' \<in> set (Object_keys out)" by (elim conjE)
    from * have g: "get out ''children'' = Arr cs" by (elim conjE)
    from * have "cs = toArray (get [(''children'', v)] ''children'')" by (elim conjE)
    then have cs: "cs = toArray v" by (simp add: get_Cons)
    show ?thesis
      by (rule exI [of _ out], rule exI [of _ con]) (simp only: r k g cs simp_thms)
  qed
  have none: "\<exists>out con. convertProps example_host [] [] = Inr (out, con) \<and> get out ''children'' = Arr []"
  proof -
    obtain out con cs where
      *: "convertProps example_host [] [] = Inr (out, con) \<and>
       ''children'' \<in> set (Object_keys out) \<and>
       get out ''children'' = Arr cs \<and> truthy (get out ''children'') \<and>
       cs = toArray (get [] ''children'') \<and>
       (\<forall>c \<in> set cs. c \<noteq> Undefined \<and> c \<noteq> Null \<and> (\<forall>b. c \<noteq> Bool b) \<and> (\<forall>xs. c \<noteq> Arr xs)) \<and>
       (\<forall>e. get [] ''children'' = Obj e \<longrightarrow> cs = [Obj e]) \<and>
       (get [] ''children'' = Undefined \<longrightarrow> cs = []) \<and>
       (\<forall>xs. get [] ''children'' = Arr xs \<and> (\<forall>x \<in> set xs. toArray x = [x]) \<longrightarrow> cs = xs)"
      using children_canonical [of example_host "[]" "[]"]
      by (elim exE) (rule that)
    from * have r: "convertProps example_host [] [] = Inr (out, con)" by (elim conjE)
    from * have g: "get out ''children'' = Arr cs" by (elim conjE)
    from * have "get [] ''children'' = Undefined \<longrightarrow> cs = []" by (elim conjE)
    then have cs: "cs = []" by (simp add: get_Nil)
    show ?thesis
      by (rule exI [of _ out], rule exI [of _ con]) (simp only: r g cs simp_thms)
  qed
  have single: "\<exists>out con.
     convertProps example_host []
       [(''children'', Obj [(''type'', Str ''li''), (''key'', Str ''a'')])] = Inr (out, con) \<and>
     ''children'' \<in> set (Object_keys out) \<and>
     get out ''children'' = Arr [Obj [(''type'', Str ''li''), (''key'', Str ''a'')]]"
    using one [of "Obj [(''type'', Str ''li''), (''key'', Str ''a'')]"] by simp
  have two: "\<exists>out con.
     convertProps example_host []
       [(''children'', Arr [Obj [(''key'', Str ''a'')], Obj [(''key'', Str ''b'')]])] = Inr (out, con) \<and>
     ''children'' \<in> set (Object_keys out) \<and>
     get out ''children'' = Arr [Obj [(''key'', Str ''a'')], Obj [(''key'', Str ''b'')]]"
    using one [of "Arr [Obj [(''key'', Str ''a'')], Obj [(''key'', Str ''b'')]]"] by simp
  show ?thesis
    by (intro conjI single none two)
qed

section \<open>The stateless children\<close>

text \<open>
  The check of lines 44 to 46 lets a child pass when it is not stateless or when
  \<open>typeof child.key\<close> is \<open>'undefined'\<close>. An element written without a key has the key
  \<open>null\<close>, and \<open>typeof null\<close> is \<open>'object'\<close>: for the check such an element carries a key.
\<close>

lemma hasKey_null: "member child ''key'' = Inr Null \<Longrightarrow> hasKey child"
  by (simp add: hasKey_def)

lemma childAllowed_null_key:
  "isElementAnSFC h child \<Longrightarrow> member child ''key'' = Inr Null \<Longrightarrow>
     childAllowed h child = Inr False"
  by (simp add: childAllowed_def)

lemma count_statelessWarning:
  "count_list (statelessWarning h props) (console_warn statelessFunctionalComponentSupplied) =
     (if \<exists>c \<in> set (toArray (get props ''children'')). isElementAnSFC h c \<and> hasKey c then 1 else 0)"
  by (simp add: statelessWarning_def list_ex_iff)

text \<open>Whatever the host and the props: a stateless child whose key is null brings the warning.\<close>

lemma null_key_stateless_warned:
  assumes "c \<in> set (toArray (get props ''children''))"
    and "isElementAnSFC h c" and "member c ''key'' = Inr Null"
  shows "\<exists>out con. convertProps h this_props props = Inr (out, con) \<and>
     count_list con (console_warn statelessFunctionalComponentSupplied) = 1"
proof -
  from assms have "\<exists>c \<in> set (toArray (get props ''children'')). isElementAnSFC h c \<and> hasKey c"
    using hasKey_null by blast
  then have "count_list (statelessWarning h props)
      (console_warn statelessFunctionalComponentSupplied) = 1"
    by (simp add: count_statelessWarning)
  moreover have "count_list (deprecationWarning props)
      (console_warn statelessFunctionalComponentSupplied) = 0"
    by (simp add: deprecationWarning_def)
  ultimately show ?thesis
    unfolding convertProps_Inr by (simp add: count_warn_timingErrors)
qed

text \<open>
  C8. A child without a key is to be accepted, stateless or not; the comment above the
  check says so: such a child is not animated and is allowed to be a stateless
  functional component. The code does otherwise. The only child here is the
  element \<open><Item />\<close> of a stateless \<open>Item\<close>, written without a key, so its key is null;
  the check reads \<open>typeof null\<close>, which is not \<open>'undefined'\<close>, and the console gets the
  warning about stateless functional components.
\<close>

theorem keyless_stateless_child_warned:
  "isElementAnSFC example_host
     (Obj [(''type'', Function ''Item''), (''key'', Null), (''props'', Obj [])]) \<and>
   member (Obj [(''type'', Function ''Item''), (''key'', Null), (''props'', Obj [])]) ''key''
     = Inr Null \<and>
   typeof Null = ''object'' \<and>
   normalize example_host
     [(''children'', Obj [(''type'', Function ''Item''), (''key'', Null), (''props'', Obj [])])] =
     Inr ([(''children'',
             Arr [Obj [(''type'', Function ''Item''), (''key'', Null), (''props'', Obj [])]]),
           (''easing'', Str ''ease-in-out''),
           (''duration'', Num (Finite 350)),
           (''delay'', Num (Finite 0)),
           (''staggerDurationBy'', Num (Finite 0)),
           (''staggerDelayBy'', Num (Finite 0)),
           (''typeName'', Str ''div''),
           (''enterClassName'', Thunk (Str ''elevator'')),
           (''leaveClassName'', Thunk (Str ''elevator'')),
           (''disableAllAnimations'', Bool False),
           (''getPosition'', Function ''node => node.getBoundingClientRect()''),
           (''maintainContainerHeight'', Bool False),
           (''delegated'', Obj [(''style'', Obj [(''position'', Str ''relative'')])])],
          [console_warn statelessFunctionalComponentSupplied])"
  by (simp add: normalize_def render_def resolveDefaultProps_def defaultProps_def example_host_def
      convertProps_def Let_def get_Cons get_Nil put_def childAllowed_def timingPropNames_def
      convertTimingProp.simps isNaN_def convertAnimationProps_def convertAnimationProp_def
      acceptDisableAnimations.simps delegate_def delegatedProps_def omit_def primaryPropKeys_def
      propTypes_def spread_def Object_keys_def)

section \<open>Converting what was converted\<close>

lemma omit_put_same: "omit (put obj k v) [k] = omit obj [k]"
  by (induction obj) (auto simp: omit_def put_def)

lemma concat_toArray: "concat (map toArray (toArray v)) = toArray v"
  by (simp add: concat_leaves toArray_leaf)

lemma timingValue_idem: "timingValue (timingValue v) = timingValue v"
  by (cases v) simp_all

lemma timingResult_fixed:
  assumes "prop \<in> set timingPropNames"
  shows "timingResult h prop (timingResult h prop raw) = timingResult h prop raw"
proof (cases "isNaN h (timingValue raw)")
  case True
  with timing_default_integer [OF assms, of h] show ?thesis
    by (cases "get (defaultProps h) prop") (simp_all add: timingResult_def)
next
  case False
  then show ?thesis by (simp add: timingResult_def timingValue_idem)
qed

lemma timingResult_no_error:
  assumes "prop \<in> set timingPropNames"
  shows "\<not> isNaN h (timingValue (timingResult h prop raw))"
proof (cases "isNaN h (timingValue raw)")
  case True
  with timing_default_integer [OF assms, of h] show ?thesis
    by (cases "get (defaultProps h) prop") (simp_all add: timingResult_def)
next
  case False
  then show ?thesis by (simp add: timingResult_def timingValue_idem)
qed

lemma fold_timing_fixed:
  "\<forall>p \<in> set ps. p \<in> set (Object_keys w) \<and> timingResult h p (get w p) = get w p \<Longrightarrow>
     fst (fold (convertTimingProp h) ps (w, out)) = w"
  by (induction ps arbitrary: out) (simp_all add: convertTimingProp_eq put_same)

lemma convertAnimationProp_idem:
  "convertAnimationProp (convertAnimationProp v) = convertAnimationProp v"
  by (simp add: convertAnimationProp_def)

lemma spread_undefined: "spread target Undefined = target"
  by (simp add: spread_def Object_keys_def)

lemma keys_recognised: "set (Object_keys (recognised h props)) \<subseteq> set primaryPropKeys"
proof
  fix k assume "k \<in> set (Object_keys (recognised h props))"
  then have in_c: "k \<in> set (Object_keys (convertedProps h props))"
    and not_d: "k \<notin> insert ''style'' (set (Object_keys props) - set primaryPropKeys)"
    by (simp_all add: recognised_def keys_omit keys_delegatedProps)
  show "k \<in> set primaryPropKeys"
  proof (rule ccontr)
    assume np: "k \<notin> set primaryPropKeys"
    with not_d have nk: "k \<notin> set (Object_keys props)" by simp
    with in_c np timing_primary primary_members
    have "k = ''disableAnimations'' \<and> get props ''disableAnimations'' \<noteq> Undefined"
      by (auto simp: keys_convertedProps split: if_splits)
    with nk key_of_defined show False by blast
  qed
qed

lemma get_recognised:
  "k \<in> set primaryPropKeys \<Longrightarrow> get (recognised h props) k = get (convertedProps h props) k"
  using primary_plain [of k] by (simp add: recognised_def get_omit keys_delegatedProps)

lemma in_recognised:
  "k \<in> set primaryPropKeys \<Longrightarrow> k \<in> set (Object_keys (convertedProps h props)) \<Longrightarrow>
     k \<in> set (Object_keys (recognised h props))"
  using primary_plain [of k] by (simp add: recognised_def keys_omit keys_delegatedProps)

lemma out_without_delegated:
  "omit (delegate props (convertedProps h props)) [''delegated''] = recognised h props"
proof -
  have "''delegated'' \<notin> set (Object_keys (recognised h props))"
    using keys_recognised [of h props] delegated_not_primary by blast
  then have "omit (recognised h props) [''delegated''] = recognised h props"
    by (simp add: omit_absent)
  then show ?thesis
    by (simp add: delegate_def Let_def omit_put_same recognised_def)
qed

lemma recognised_children:
  "''children'' \<in> set (Object_keys (recognised h props)) \<and>
   get (recognised h props) ''children'' = Arr (toArray (get props ''children''))"
  using primary_members(1)
  by (simp add: in_recognised get_recognised keys_convertedProps get_convertedProps timing_names)

lemma recognised_timing:
  assumes "p \<in> set timingPropNames"
  shows "p \<in> set (Object_keys (recognised h props)) \<and>
     get (recognised h props) p = timingResult h p (get props p)"
proof -
  from assms have prim: "p \<in> set primaryPropKeys" by (rule timing_primary)
  from assms have "get (convertedProps h props) p = timingResult h p (get props p)"
    by (auto simp: get_convertedProps timing_names)
  with prim assms show ?thesis
    by (simp add: in_recognised get_recognised keys_convertedProps)
qed

lemma recognised_animation:
  assumes "k = ''enterClassName'' \<or> k = ''leaveClassName''"
  shows "k \<in> set (Object_keys (recognised h props)) \<and>
     get (recognised h props) k = convertAnimationProp (get props k)"
proof -
  from assms have prim: "k \<in> set primaryPropKeys" using primary_members by auto
  from assms have "get (convertedProps h props) k = convertAnimationProp (get props k)"
    by (auto simp: get_convertedProps)
  with prim assms show ?thesis
    by (auto simp: in_recognised get_recognised keys_convertedProps)
qed

lemma recognised_no_disableAnimations: "get (recognised h props) ''disableAnimations'' = Undefined"
  using keys_recognised [of h props] disableAnimations_not_primary get_absent by blast

lemma convertedProps_recognised: "convertedProps h (recognised h props) = recognised h props"
proof -
  let ?w = "recognised h props"
  have 1: "put ?w ''children'' (Arr (toArray (get ?w ''children''))) = ?w"
    using recognised_children [of h props] by (simp add: put_same concat_toArray)
  have 2: "fst (fold (convertTimingProp h) timingPropNames (?w, [])) = ?w"
    by (rule fold_timing_fixed) (simp add: recognised_timing timingResult_fixed)
  have 3: "convertAnimationProps ?w = ?w"
    using recognised_animation [of "''enterClassName''" h props]
      recognised_animation [of "''leaveClassName''" h props]
    by (simp add: convertAnimationProps_def Let_def put_same convertAnimationProp_idem)
  show ?thesis
    by (simp add: convertedProps_def 1 2 3 acceptDisableAnimations_eq
        recognised_no_disableAnimations)
qed

lemma delegatedProps_recognised:
  "delegatedProps (recognised h props) = [(''style'', Obj [(''position'', Str ''relative'')])]"
  using keys_recognised [of h props]
  by (simp add: delegatedProps_def Let_def omit_all get_Nil spread_undefined put_def)

lemma delegate_recognised:
  "delegate (recognised h props) (recognised h props) =
     put (recognised h props) ''delegated'' (Obj [(''style'', Obj [(''position'', Str ''relative'')])])"
proof -
  have "''style'' \<notin> set (Object_keys (recognised h props))"
    using keys_recognised [of h props] style_not_primary by blast
  then have "omit (recognised h props) [''style''] = recognised h props"
    by (simp add: omit_absent)
  then show ?thesis
    by (simp add: delegate_def Let_def delegatedProps_recognised keys_singleton)
qed

lemma console_recognised:
  "statelessWarning h (recognised h props)
     @ concat (map (timingErrors h (recognised h props)) timingPropNames)
     @ deprecationWarning (recognised h props) = statelessWarning h props"
proof -
  have "\<forall>p \<in> set timingPropNames. timingErrors h (recognised h props) p = []"
    by (simp add: timingErrors_def recognised_timing timingResult_no_error)
  then have "concat (map (timingErrors h (recognised h props)) timingPropNames) = []"
    by simp
  moreover have "deprecationWarning (recognised h props) = []"
    by (simp add: deprecationWarning_def recognised_no_disableAnimations)
  moreover have "statelessWarning h (recognised h props) = statelessWarning h props"
    using recognised_children [of h props] by (simp add: statelessWarning_def concat_toArray)
  ultimately show ?thesis by simp
qed

lemma resolve_fold_fixed:
  "\<forall>kd \<in> set ds. get p (fst kd) \<noteq> Undefined \<Longrightarrow>
     fold (\<lambda>kd p. if get p (fst kd) = Undefined then put p (fst kd) (snd kd) else p) ds p = p"
  by (induction ds) simp_all

lemma resolve_fold_keep:
  "get p k \<noteq> Undefined \<Longrightarrow>
     get (fold (\<lambda>kd p. if get p (fst kd) = Undefined then put p (fst kd) (snd kd) else p) ds p) k
       = get p k"
proof (induction ds arbitrary: p)
  case Nil
  then show ?case by simp
next
  case (Cons kd ds)
  then show ?case by (cases "fst kd = k") (auto simp: get_put)
qed

lemma resolve_fold_defined:
  "(k, d) \<in> set ds \<Longrightarrow> d \<noteq> Undefined \<Longrightarrow>
     get (fold (\<lambda>kd p. if get p (fst kd) = Undefined then put p (fst kd) (snd kd) else p) ds p) k
       \<noteq> Undefined"
proof (induction ds arbitrary: p)
  case Nil
  then show ?case by simp
next
  case (Cons kd ds)
  show ?case
  proof (cases "kd = (k, d)")
    case True
    show ?thesis
    proof (cases "get p k = Undefined")
      case undefined: True
      have "get (put p k d) k \<noteq> Undefined"
        using Cons.prems(2) by (simp add: get_put)
      then show ?thesis
        using resolve_fold_keep [of "put p k d" k ds] \<open>kd = (k, d)\<close> undefined by simp
    next
      case False
      then show ?thesis
        using resolve_fold_keep [of p k ds] \<open>kd = (k, d)\<close> by simp
    qed
  next
    case False
    with Cons.prems have "(k, d) \<in> set ds" by simp
    from Cons.IH [OF this Cons.prems(2)] show ?thesis by simp
  qed
qed

lemma defaulted_plain:
  "get (resolveDefaultProps h raw) ''easing'' \<noteq> Undefined"
  "get (resolveDefaultProps h raw) ''typeName'' \<noteq> Undefined"
  "get (resolveDefaultProps h raw) ''getPosition'' \<noteq> Undefined"
  "get (resolveDefaultProps h raw) ''maintainContainerHeight'' \<noteq> Undefined"
  "get (resolveDefaultProps h raw) ''disableAllAnimations'' \<noteq> Undefined"
  unfolding resolveDefaultProps_def
  by (rule resolve_fold_defined [where d = "Str ''ease-in-out''"], simp add: defaultProps_def, simp)
    (rule resolve_fold_defined [where d = "Str ''div''"], simp add: defaultProps_def, simp,
     rule resolve_fold_defined [where d = "Function ''node => node.getBoundingClientRect()''"],
       simp add: defaultProps_def, simp,
     rule resolve_fold_defined [where d = "Bool False"], simp add: defaultProps_def, simp,
     rule resolve_fold_defined [where d = "Bool False"], simp add: defaultProps_def, simp)

lemma timingResult_defined:
  assumes "prop \<in> set timingPropNames"
  shows "timingResult h prop raw \<noteq> Undefined"
proof
  assume "timingResult h prop raw = Undefined"
  with timingResult_no_error [OF assms, of h raw] show False
    by (simp add: isNaN_def)
qed

lemma convertAnimationProp_defined: "convertAnimationProp v \<noteq> Undefined"
  by (cases v) (simp_all add: convertAnimationProp_def)

lemma default_names:
  "map fst (defaultProps h) =
     [''easing'', ''duration'', ''delay'', ''staggerDurationBy'', ''staggerDelayBy'', ''typeName'',
      ''enterClassName'', ''leaveClassName'', ''disableAllAnimations'', ''getPosition'',
      ''maintainContainerHeight'']"
  by (simp add: defaultProps_def)

lemma converted_defaults_defined:
  "list_all (\<lambda>k. get (convertedProps h (resolveDefaultProps h raw)) k \<noteq> Undefined)
     (map fst (defaultProps h))"
  unfolding default_names
  by (simp add: get_convertedProps timing_names defaulted_plain timingResult_defined
      convertAnimationProp_defined)

lemma recognised_defaults_defined:
  assumes "(k, d) \<in> set (defaultProps h)"
  shows "get (recognised h (resolveDefaultProps h raw)) k \<noteq> Undefined"
proof -
  from assms have k: "k \<in> set (map fst (defaultProps h))"
    by (simp add: rev_image_eqI)
  have "list_all (\<lambda>k. k \<in> set primaryPropKeys) (map fst (defaultProps h))"
    unfolding default_names by (simp add: primaryPropKeys_def propTypes_def)
  with k have "k \<in> set primaryPropKeys"
    unfolding list_all_iff by (rule bspec [rotated])
  then have "get (recognised h (resolveDefaultProps h raw)) k =
      get (convertedProps h (resolveDefaultProps h raw)) k"
    by (rule get_recognised)
  moreover from converted_defaults_defined [of h raw] k
  have "get (convertedProps h (resolveDefaultProps h raw)) k \<noteq> Undefined"
    unfolding list_all_iff by (rule bspec)
  ultimately show ?thesis by simp
qed

lemma resolveDefaultProps_recognised:
  "resolveDefaultProps h (recognised h (resolveDefaultProps h raw)) =
     recognised h (resolveDefaultProps h raw)"
  unfolding resolveDefaultProps_def [of h "recognised h (resolveDefaultProps h raw)"]
proof (rule resolve_fold_fixed, rule ballI)
  fix kd assume "kd \<in> set (defaultProps h)"
  then have "(fst kd, snd kd) \<in> set (defaultProps h)" by simp
  then show "get (recognised h (resolveDefaultProps h raw)) (fst kd) \<noteq> Undefined"
    by (rule recognised_defaults_defined)
qed

lemma rerender:
  fixes h props
  defines "w \<equiv> recognised h props"
  defines "out' \<equiv> put w ''delegated'' (Obj [(''style'', Obj [(''position'', Str ''relative'')])])"
  shows "omit (delegate props (convertedProps h props)) [''delegated''] = w"
    and "render h w = Inr (out', statelessWarning h props)"
    and "omit out' [''delegated''] = w"
    and "get out' ''delegated'' = Obj [(''style'', Obj [(''position'', Str ''relative'')])]"
proof -
  show "omit (delegate props (convertedProps h props)) [''delegated''] = w"
    unfolding w_def by (rule out_without_delegated)
  show "render h w = Inr (out', statelessWarning h props)"
    unfolding w_def out'_def
    by (simp add: render_def convertProps_Inr convertedProps_recognised delegate_recognised
        console_recognised)
  have "''delegated'' \<notin> set (Object_keys w)"
    unfolding w_def using keys_recognised [of h props] delegated_not_primary by blast
  then show "omit out' [''delegated''] = w"
    unfolding out'_def by (simp add: omit_put_same omit_absent)
  show "get out' ''delegated'' = Obj [(''style'', Obj [(''position'', Str ''relative'')])]"
    unfolding out'_def by (simp add: get_put)
qed

text \<open>
  C9. Take what \<open>render\<close> hands on, leave \<open>delegated\<close> out, and render that: the second
  result, \<open>delegated\<close> left out, is the first one, \<open>delegated\<close> left out, and is what was
  put in, so the children, the timing values and the animation functions all pass
  unchanged. The second \<open>delegated\<close> holds just the default style, and the second console
  holds no timing error and no deprecation warning. The same holds when React fills in
  the defaults before each of the two renderings.
\<close>

theorem normalization_idempotent:
  "(\<exists>out con out' con'.
      render h props = Inr (out, con) \<and>
      render h (omit out [''delegated'']) = Inr (out', con') \<and>
      omit out' [''delegated''] = omit out [''delegated''] \<and>
      get out' ''delegated'' = Obj [(''style'', Obj [(''position'', Str ''relative'')])] \<and>
      con' = statelessWarning h props) \<and>
   (\<exists>out con out' con'.
      normalize h raw = Inr (out, con) \<and>
      normalize h (omit out [''delegated'']) = Inr (out', con') \<and>
      omit out' [''delegated''] = omit out [''delegated''] \<and>
      get out' ''delegated'' = Obj [(''style'', Obj [(''position'', Str ''relative'')])] \<and>
      con' = statelessWarning h (resolveDefaultProps h raw))"
proof
  let ?D = "Obj [(''style'', Obj [(''position'', Str ''relative'')])]"
  let ?con = "\<lambda>p. statelessWarning h p @ concat (map (timingErrors h p) timingPropNames)
      @ deprecationWarning p"
  have first: "render h p = Inr (delegate p (convertedProps h p), ?con p)" for p
    by (simp add: render_def convertProps_Inr)
  show "\<exists>out con out' con'.
      render h props = Inr (out, con) \<and>
      render h (omit out [''delegated'']) = Inr (out', con') \<and>
      omit out' [''delegated''] = omit out [''delegated''] \<and>
      get out' ''delegated'' = ?D \<and>
      con' = statelessWarning h props"
    by (rule exI [of _ "delegate props (convertedProps h props)"], rule exI [of _ "?con props"],
        rule exI [of _ "put (recognised h props) ''delegated'' ?D"],
        rule exI [of _ "statelessWarning h props"])
      (simp only: first rerender simp_thms)
  let ?p = "resolveDefaultProps h raw"
  have again: "normalize h (recognised h ?p) = render h (recognised h ?p)"
    by (simp only: normalize_def resolveDefaultProps_recognised)
  show "\<exists>out con out' con'.
      normalize h raw = Inr (out, con) \<and>
      normalize h (omit out [''delegated'']) = Inr (out', con') \<and>
      omit out' [''delegated''] = omit out [''delegated''] \<and>
      get out' ''delegated'' = ?D \<and>
      con' = statelessWarning h ?p"
    by (rule exI [of _ "delegate ?p (convertedProps h ?p)"], rule exI [of _ "?con ?p"],
        rule exI [of _ "put (recognised h ?p) ''delegated'' ?D"],
        rule exI [of _ "statelessWarning h ?p"])
      (simp only: normalize_def [of h raw] first rerender again simp_thms)
qed

text \<open>
  A caller's \<open>duration\<close> of \<open>"200"\<close> and a field \<open>foo\<close>: normalising the first result
  without its \<open>delegated\<close> gives the same top level again, and an empty console.
\<close>

theorem normalization_idempotent_witness:
  "\<exists>out con out' con'.
     normalize example_host [(''duration'', Str ''200''), (''foo'', Num (Finite 1))] = Inr (out, con) \<and>
     normalize example_host (omit out [''delegated'']) = Inr (out', con') \<and>
     omit out' [''delegated''] = omit out [''delegated''] \<and>
     get out' ''delegated'' = Obj [(''style'', Obj [(''position'', Str ''relative'')])] \<and>
     con' = []"
proof -
  have "statelessWarning example_host
      (resolveDefaultProps example_host [(''duration'', Str ''200''), (''foo'', Num (Finite 1))]) = []"
    by (simp add: statelessWarning_def resolveDefaultProps_def defaultProps_def get_Cons get_Nil
        put_def)
  with normalization_idempotent
    [of example_host "[]" "[(''duration'', Str ''200''), (''foo'', Num (Finite 1))]",
      THEN conjunct2]
  show ?thesis by simp
qed

end
